theory Spec2Isabelle
  imports Complex_Main
begin

section \<open>OPI: the BasicCPP example propagator\<close>

text \<open>
  A shallow embedding of \<^verbatim>\<open>examples/propagator_basic_cpp.cpp\<close>.

  Numbers. The plugin computes in C++ \<^verbatim>\<open>double\<close> and \<^verbatim>\<open>float\<close>. Both are
  embedded as \<^typ>\<open>real\<close>. The conversions from \<^verbatim>\<open>double\<close> to \<^verbatim>\<open>float\<close> that the source
  writes out, the six casts \<^verbatim>\<open>(float)orbit[i]\<close>\<open>.\<dots>\<close> and the initialisation of
  \<^verbatim>\<open>float seconds\<close>, round to the nearest binary32 number (\<open>f32\<close> below). Everything else
  is exact: the arithmetic, and \<^verbatim>\<open>sin\<close>, \<^verbatim>\<open>cos\<close>, \<^verbatim>\<open>atan\<close>, \<^verbatim>\<open>sqrt\<close>, which are the real
  functions (whether the source calls their \<^verbatim>\<open>double\<close> or their \<^verbatim>\<open>float\<close> versions depends
  on headers that are not among the sources). Infinities and NaN are outside this model:
  where the C++ yields them (a division by zero, \<^verbatim>\<open>fmod\<close> by zero, the root of a negative
  number, an overflow) the model has some finite number. The theorems below speak about
  which array cells are written, which state is kept, and which inputs a result depends
  on, and use no fact about the arithmetic; the few numeric facts they state (zero
  elapsed seconds, a positive divisor, a zero position) hold of the binary32 program as
  well, as is said where they appear.
\<close>

subsection \<open>Data types of the interface\<close>

text \<open>
  Modelled from the spec: the enumeration \<^verbatim>\<open>OPI::ErrorCode\<close>, whose declaration is not
  among the sources. The plugin source names \<^verbatim>\<open>SUCCESS\<close> and \<^verbatim>\<open>NOT_IMPLEMENTED\<close>; the
  remaining constructors are the error kinds of the taxonomy in section 7 of the
  specification. \<open>EmptyPopulation\<close> stands for the failure of the host's non-emptiness
  check, for which the specification names no kind.
\<close>

datatype ErrorCode =
    SUCCESS
  | NOT_IMPLEMENTED
  | PluginLoadFailed
  | MissingEntryPoint
  | VersionIncompatible
  | CapabilityUnavailable
  | PluginNotLoaded
  | PropagatorNotActive
  | UnsupportedDirection
  | InvalidTime
  | IndexOutOfRange
  | BackendUnavailable
  | EmptyPopulation

text \<open>
  Modelled from the spec: the enumeration \<^verbatim>\<open>OPI::PropagationMode\<close> (declaration not among
  the sources), with the three modes of section 4.3.
\<close>

datatype PropagationMode = Full | Indexed | MultiTime

text \<open>
  The enumeration \<^verbatim>\<open>OPI::ReferenceFrame\<close> (declaration not among the sources), with the
  three values that the plugin source and its comments name.
\<close>

datatype ReferenceFrame = REF_NONE | REF_UNSPECIFIED | REF_ECI

text \<open>
  Modelled from the spec: the backends of section 3, host memory and one device memory.
  The plugin source names \<^verbatim>\<open>OPI::DEVICE_HOST\<close>; the declaration of the enumeration is not
  among the sources.
\<close>

datatype Device = DEVICE_HOST | DEVICE_CUDA

text \<open>
  Modelled from the spec: the data categories of section 3 (elements, position,
  velocity, properties). The plugin source names \<^verbatim>\<open>OPI::DATA_ORBIT\<close> and
  \<^verbatim>\<open>OPI::DATA_POSITION\<close>; the declaration of the enumeration is not among the sources.
\<close>

datatype DataType = DATA_ORBIT | DATA_POSITION | DATA_VELOCITY | DATA_PROPERTIES

text \<open>
  Modelled from the spec: an index list is an ordered sequence of integer indices
  (section 3); the class \<^verbatim>\<open>OPI::IndexList\<close> is not among the sources.
\<close>

type_synonym IndexList = "int list"

text \<open>
  \<^verbatim>\<open>OPI::Orbit\<close> and \<^verbatim>\<open>OPI::Vector3\<close> (declared in a generated header that is not among the
  sources): the six orbital elements and the three coordinates, with the field names the
  plugin source uses; the coordinates \<^verbatim>\<open>x\<close>, \<^verbatim>\<open>y\<close>, \<^verbatim>\<open>z\<close> are prefixed.
\<close>

record Orbit =
  semi_major_axis :: real
  eccentricity :: real
  inclination :: real
  raan :: real
  arg_of_perigee :: real
  mean_anomaly :: real

record Vector3 =
  vec_x :: real
  vec_y :: real
  vec_z :: real

subsection \<open>The population buffer\<close>

text \<open>
  Modelled from the spec: the class \<^verbatim>\<open>OPI::Population\<close> of section 3 and 4.4 (neither its
  declaration nor its member functions are among the sources). A population holds its
  size and, per backend, one array of orbital elements and one of positions, and a
  validity table over (category, backend).
\<close>

record Population =
  pop_size :: nat
  orbit_data :: "Device \<Rightarrow> Orbit list"
  position_data :: "Device \<Rightarrow> Vector3 list"
  data_valid :: "DataType \<Rightarrow> Device \<Rightarrow> bool"

text \<open>Modelled from the spec: \<^verbatim>\<open>Population::getSize\<close>, the number \<open>N\<close> of objects, as the
  C++ \<^verbatim>\<open>int\<close> that the plugin passes on.\<close>

definition getSize :: "Population \<Rightarrow> int" where
  "getSize P = int (pop_size P)"

text \<open>Modelled from the spec: the currently authoritative backend of a category
  (section 4.4), a backend whose copy is valid; the host is asked first.\<close>

definition authoritative :: "Population \<Rightarrow> DataType \<Rightarrow> Device option" where
  "authoritative P cat = find (data_valid P cat) [DEVICE_HOST, DEVICE_CUDA]"

text \<open>Modelled from the spec: after the copy that \<open>get\<close> makes, the requested backend holds
  a valid copy as well (section 3: all backends holding a copy are equal immediately after
  a sync).\<close>

definition mark_valid :: "Population \<Rightarrow> DataType \<Rightarrow> Device \<Rightarrow> Population" where
  "mark_valid P cat dev = P\<lparr>data_valid := (data_valid P)(cat := (data_valid P cat)(dev := True))\<rparr>"

text \<open>
  Modelled from the spec: \<open>get(category, backend)\<close> of section 4.4 for the orbit category,
  the source's \<^verbatim>\<open>getOrbit\<close>: when the requested backend's copy is stale it is overwritten
  with the authoritative one and is then a valid copy too; no copy is invalidated, and a
  read of a valid copy changes nothing. The pointer that the C++ function returns is the
  array \<open>orbit_data P' dev\<close> of the population \<open>P'\<close> returned here.
\<close>

definition getOrbit :: "Population \<Rightarrow> Device \<Rightarrow> Population" where
  "getOrbit P dev =
     (if data_valid P DATA_ORBIT dev then P
      else case authoritative P DATA_ORBIT of
             None \<Rightarrow> P
           | Some src \<Rightarrow>
               mark_valid (P\<lparr>orbit_data := (orbit_data P)(dev := orbit_data P src)\<rparr>) DATA_ORBIT dev)"

text \<open>Modelled from the spec: \<open>get(category, backend)\<close> of section 4.4 for the position
  category, the source's \<^verbatim>\<open>getPosition\<close>.\<close>

definition getPosition :: "Population \<Rightarrow> Device \<Rightarrow> Population" where
  "getPosition P dev =
     (if data_valid P DATA_POSITION dev then P
      else case authoritative P DATA_POSITION of
             None \<Rightarrow> P
           | Some src \<Rightarrow>
               mark_valid (P\<lparr>position_data := (position_data P)(dev := position_data P src)\<rparr>)
                 DATA_POSITION dev)"

text \<open>Modelled from the spec: \<open>update(category, backend)\<close> of section 4.4 "marks backend as
  authoritative for category and invalidates all other backends' copies for that
  category".\<close>

definition update :: "Population \<Rightarrow> DataType \<Rightarrow> Device \<Rightarrow> Population" where
  "update P cat dev = P\<lparr>data_valid := (data_valid P)(cat := (\<lambda>d. d = dev))\<rparr>"

text \<open>
  The arrays of a population all have its size. C++ hands the plugin raw pointers, so
  this is the precondition under which the plugin's loop stays inside the arrays.
\<close>

definition wf_population :: "Population \<Rightarrow> bool" where
  "wf_population P =
     (length (orbit_data P DEVICE_HOST) = pop_size P \<and>
      length (orbit_data P DEVICE_CUDA) = pop_size P \<and>
      length (position_data P DEVICE_HOST) = pop_size P \<and>
      length (position_data P DEVICE_CUDA) = pop_size P)"

subsection \<open>The propagation kernel\<close>

text \<open>The constants of \<^verbatim>\<open>cpp_propagate\<close>, as the decimal literals of the source.\<close>

definition PI :: real where "PI = 3.1415926"
definition RMUE :: real where "RMUE = 398600.5"
definition EPSILON :: real where "EPSILON = 0.00001"

text \<open>
  C's \<^verbatim>\<open>fmod\<close> and \<^verbatim>\<open>fmodf\<close>: \<open>x - n * y\<close> with \<open>n\<close> the quotient truncated towards zero.
  With \<open>y = 0\<close> C returns NaN; here the quotient is \<open>0\<close> and the result \<open>x\<close>.
\<close>

definition fmod :: "real \<Rightarrow> real \<Rightarrow> real" where
  "fmod a b = a - b * of_int (if 0 \<le> a / b then \<lfloor>a / b\<rfloor> else \<lceil>a / b\<rceil>)"

text \<open>
  The conversion of a \<^verbatim>\<open>double\<close> to \<^verbatim>\<open>float\<close>: rounding to the nearest binary32 number,
  ties to the even significand. A binary32 number is a multiple of \<open>2 ^ (e - 23)\<close>, where
  \<open>e\<close> is the exponent of the value and at least \<open>-126\<close> (below that the numbers are
  subnormal, with the spacing \<open>2 ^ -149\<close>). A value beyond the largest binary32 number
  becomes an infinity in C++; here it is rounded like any other.
\<close>

definition round_to_even :: "real \<Rightarrow> int" where
  "round_to_even y =
     (let n = \<lfloor>y\<rfloor>; d = y - of_int n
      in if d < 1 / 2 then n else if 1 / 2 < d then n + 1 else if even n then n else n + 1)"

definition f32 :: "real \<Rightarrow> real" where
  "f32 v =
     (if v = 0 then 0
      else let e = max \<lfloor>log 2 \<bar>v\<bar>\<rfloor> (- 126);
               ulp = 2 powr (of_int e - 23)
           in ulp * of_int (round_to_even (v / ulp)))"

text \<open>
  \<^verbatim>\<open>mean2eccentric\<close>: the loop \<^verbatim>\<open>for (i = 0; i < maxloop; i++)\<close> with \<^verbatim>\<open>maxloop = 5\<close>;
  the first argument of the iteration counts the rounds that remain.
\<close>

fun mean2eccentric_iter :: "nat \<Rightarrow> real \<Rightarrow> real \<Rightarrow> real \<Rightarrow> real" where
  "mean2eccentric_iter 0 eccentricAnomaly meanAnomaly ecc = eccentricAnomaly"
| "mean2eccentric_iter (Suc k) eccentricAnomaly meanAnomaly ecc =
     (let fcte = eccentricAnomaly - ecc * sin eccentricAnomaly - meanAnomaly;
          fctes = 1 - ecc * cos eccentricAnomaly
      in mean2eccentric_iter k (eccentricAnomaly - fcte / fctes) meanAnomaly ecc)"

definition mean2eccentric :: "real \<Rightarrow> real \<Rightarrow> real" where
  "mean2eccentric meanAnomaly ecc =
     (let eccentricAnomaly = meanAnomaly; maxloop = 5
      in mean2eccentric_iter maxloop eccentricAnomaly meanAnomaly ecc)"

text \<open>
  Lines 205-206 of the source: \<^verbatim>\<open>float r = p / EPSILON; if (arg > EPSILON) r = p / arg;\<close>
\<close>

definition orbit_radius :: "real \<Rightarrow> real \<Rightarrow> real" where
  "orbit_radius p arg = (let r = p / EPSILON in if arg > EPSILON then p / arg else r)"

text \<open>
  The body of the loop of \<^verbatim>\<open>cpp_propagate\<close> for one object (lines 169-206): from the
  object's orbit and the elapsed seconds to the position vector and the mean anomaly that
  lines 209-214 store. The six locals are the elements of the orbit cast to \<^verbatim>\<open>float\<close>;
  the local \<open>phi\<close> is read and never used, as in the source; \<^verbatim>\<open>powf(sma, 3.0f)\<close> and
  \<^verbatim>\<open>powf(ecc, 2.0f)\<close> are the third and the second power. The casts back to \<^verbatim>\<open>double\<close>
  in lines 209-214 are exact.
\<close>

definition propagate_object :: "Orbit \<Rightarrow> real \<Rightarrow> Vector3 \<times> real" where
  "propagate_object ob seconds =
     (let sma = f32 (semi_major_axis ob);
          ecc = f32 (eccentricity ob);
          inc = f32 (inclination ob);
          raan_f = f32 (raan ob);
          aop = f32 (arg_of_perigee ob);
          phi = f32 (mean_anomaly ob);
          orbit_period = 2 * PI * sqrt (sma ^ 3 / RMUE);
          t = fmod seconds orbit_period;
          mean_anomaly_f = fmod (sqrt ((RMUE * t * t) / sma ^ 3)) (2 * PI);
          excentric_anomaly = mean2eccentric mean_anomaly_f ecc;
          sin_ea = sin (excentric_anomaly / 2);
          cos_ea = cos (excentric_anomaly / 2);
          true_anomaly = 2 * arctan (sqrt ((1 + ecc) / (1 - ecc)) * sin_ea / cos_ea);
          u = true_anomaly + aop;
          w = \<lparr>vec_x = cos u * cos raan_f - sin u * sin raan_f * cos inc,
               vec_y = cos u * sin raan_f + sin u * cos raan_f * cos inc,
               vec_z = sin u * sin inc\<rparr>;
          p = sma * (1 - ecc ^ 2);
          arg = 1 + ecc * cos true_anomaly;
          r = orbit_radius p arg
      in (\<lparr>vec_x = vec_x w * r, vec_y = vec_y w * r, vec_z = vec_z w * r\<rparr>, mean_anomaly_f))"

text \<open>
  \<^verbatim>\<open>cpp_propagate\<close>: the loop \<^verbatim>\<open>for (int i = 0; i < size; i++)\<close> over the two arrays. Each
  round stores the three coordinates of \<open>position[i]\<close> and the mean anomaly of \<open>orbit[i]\<close>.
  An index beyond an array is undefined behaviour in C++; the properties of the loop are
  stated for \<open>size\<close> within the arrays.
\<close>

function cpp_propagate_loop ::
  "int \<Rightarrow> Orbit list \<Rightarrow> Vector3 list \<Rightarrow> real \<Rightarrow> int \<Rightarrow> Orbit list \<times> Vector3 list" where
  "cpp_propagate_loop i orbit position seconds sz =
     (if i < sz then
        (let res = propagate_object (orbit ! nat i) seconds;
             position' = position[nat i := fst res];
             orbit' = orbit[nat i := (orbit ! nat i)\<lparr>mean_anomaly := snd res\<rparr>]
         in cpp_propagate_loop (i + 1) orbit' position' seconds sz)
      else (orbit, position))"
  by pat_completeness auto
termination
  by (relation "measure (\<lambda>(i, orbit, position, seconds, sz). nat (sz - i))") auto

definition cpp_propagate ::
  "Orbit list \<Rightarrow> Vector3 list \<Rightarrow> real \<Rightarrow> int \<Rightarrow> Orbit list \<times> Vector3 list" where
  "cpp_propagate orbit position seconds sz = cpp_propagate_loop 0 orbit position seconds sz"

subsection \<open>The plugin class\<close>

text \<open>The only member variable of \<^verbatim>\<open>BasicCPP\<close> is \<open>baseDay\<close>; the constructor sets it to 0.\<close>

record BasicCPP =
  baseDay :: real

definition BasicCPP_new :: BasicCPP where
  "BasicCPP_new = \<lparr>baseDay = 0\<rparr>"

text \<open>
  \<^verbatim>\<open>runPropagation\<close>. The arguments \<open>mode\<close> and \<open>list\<close> are not read. The elapsed time is
  computed in \<^verbatim>\<open>double\<close> and stored in the \<^verbatim>\<open>float\<close> variable \<open>seconds\<close>. The pointers that
  \<^verbatim>\<open>getOrbit\<close> and \<^verbatim>\<open>getPosition\<close> return alias the host arrays of the population, so
  what \<^verbatim>\<open>cpp_propagate\<close> stores through them is written back into the population here.
\<close>

definition runPropagation ::
  "BasicCPP \<Rightarrow> Population \<Rightarrow> real \<Rightarrow> real \<Rightarrow> PropagationMode \<Rightarrow> IndexList option
     \<Rightarrow> ErrorCode \<times> BasicCPP \<times> Population" where
  "runPropagation this population julian_day dt mode list =
     (let this1 = (if baseDay this = 0 then this\<lparr>baseDay := julian_day\<rparr> else this);
          seconds = f32 ((julian_day - baseDay this1) * 86400 + dt);
          population1 = getOrbit population DEVICE_HOST;
          orbit = orbit_data population1 DEVICE_HOST;
          population2 = getPosition population1 DEVICE_HOST;
          position = position_data population2 DEVICE_HOST;
          res = cpp_propagate orbit position seconds (getSize population2);
          population3 = population2
            \<lparr>orbit_data := (orbit_data population2)(DEVICE_HOST := fst res),
             position_data := (position_data population2)(DEVICE_HOST := snd res)\<rparr>;
          population4 = update population3 DATA_POSITION DEVICE_HOST;
          population5 = update population4 DATA_ORBIT DEVICE_HOST
      in (SUCCESS, this1, population5))"

definition runIndexedPropagation ::
  "BasicCPP \<Rightarrow> Population \<Rightarrow> IndexList \<Rightarrow> real \<Rightarrow> real \<Rightarrow> ErrorCode \<times> BasicCPP \<times> Population" where
  "runIndexedPropagation this population indices julian_day dt =
     (NOT_IMPLEMENTED, this, population)"

definition runMultiTimePropagation ::
  "BasicCPP \<Rightarrow> Population \<Rightarrow> real list \<Rightarrow> int \<Rightarrow> real \<Rightarrow> ErrorCode \<times> BasicCPP \<times> Population" where
  "runMultiTimePropagation this population julian_days len dt =
     (NOT_IMPLEMENTED, this, population)"

definition runDisable :: "BasicCPP \<Rightarrow> ErrorCode \<times> BasicCPP" where
  "runDisable this = (SUCCESS, this\<lparr>baseDay := 0\<rparr>)"

definition runEnable :: "BasicCPP \<Rightarrow> ErrorCode \<times> BasicCPP" where
  "runEnable this = (SUCCESS, this)"

definition backwardPropagation :: bool where
  "backwardPropagation = False"

definition cartesianCoordinates :: bool where
  "cartesianCoordinates = True"

definition referenceFrame :: ReferenceFrame where
  "referenceFrame = REF_ECI"

definition requiresCUDA :: int where
  "requiresCUDA = 0"

definition requiresOpenCL :: int where
  "requiresOpenCL = 0"

definition minimumOPIVersionRequired :: int where
  "minimumOPIVersionRequired = 1"


subsection \<open>Observing calls\<close>

text \<open>
  The value of the local variable \<open>seconds\<close> of \<^verbatim>\<open>runPropagation\<close> (lines 39-40), the
  host arrays that \<^verbatim>\<open>getOrbit\<close> and \<^verbatim>\<open>getPosition\<close> hand to the kernel, and the two
  components of a call's result.
\<close>

definition seconds_of :: "BasicCPP \<Rightarrow> real \<Rightarrow> real \<Rightarrow> real" where
  "seconds_of this julian_day dt =
     f32 ((julian_day - baseDay (if baseDay this = 0 then this\<lparr>baseDay := julian_day\<rparr> else this))
            * 86400 + dt)"

definition host_orbit :: "Population \<Rightarrow> Orbit list" where
  "host_orbit P = orbit_data (getOrbit P DEVICE_HOST) DEVICE_HOST"

definition host_position :: "Population \<Rightarrow> Vector3 list" where
  "host_position P = position_data (getPosition (getOrbit P DEVICE_HOST) DEVICE_HOST) DEVICE_HOST"

definition plugin_after :: "ErrorCode \<times> BasicCPP \<times> Population \<Rightarrow> BasicCPP" where
  "plugin_after r = fst (snd r)"

definition population_after :: "ErrorCode \<times> BasicCPP \<times> Population \<Rightarrow> Population" where
  "population_after r = snd (snd r)"

text \<open>\<open>n\<close> calls of the enable hook in a row: the codes returned and the final plugin.\<close>

fun runEnable_times :: "nat \<Rightarrow> BasicCPP \<Rightarrow> ErrorCode list \<times> BasicCPP" where
  "runEnable_times 0 this = ([], this)"
| "runEnable_times (Suc n) this =
     (let r = runEnable this; rest = runEnable_times n (snd r) in (fst r # fst rest, snd rest))"

text \<open>
  A sequence of \<^verbatim>\<open>runPropagation\<close> calls on one plugin and one population, each call
  given as (julian day, dt).
\<close>

fun run_calls :: "BasicCPP \<Rightarrow> Population \<Rightarrow> (real \<times> real) list \<Rightarrow> BasicCPP \<times> Population" where
  "run_calls this P [] = (this, P)"
| "run_calls this P (c # cs) =
     (let r = runPropagation this P (fst c) (snd c) Full None
      in run_calls (plugin_after r) (population_after r) cs)"

text \<open>The divisor that lines 205-206 select for the radius.\<close>

definition radius_divisor :: "real \<Rightarrow> real" where
  "radius_divisor arg = (if arg > EPSILON then arg else EPSILON)"

text \<open>Two orbit arrays that agree in length and, object by object, in every element but the
  mean anomaly.\<close>

definition differ_only_in_mean_anomaly :: "Orbit list \<Rightarrow> Orbit list \<Rightarrow> bool" where
  "differ_only_in_mean_anomaly orbit1 orbit2 =
     list_all2 (\<lambda>a b. b = a\<lparr>mean_anomaly := mean_anomaly b\<rparr>) orbit1 orbit2"


text \<open>
  The scenario of the specification: 200 objects, propagated in full mode with
  \<open>dt = 60\<close> at julian day \<open>2451545.0\<close> by a freshly constructed plugin.
\<close>

definition scenario_orbit :: Orbit where
  "scenario_orbit = \<lparr>semi_major_axis = 7000, eccentricity = 0.01, inclination = 0.5,
     raan = 0.3, arg_of_perigee = 0.2, mean_anomaly = 0.1\<rparr>"

definition scenario_population :: Population where
  "scenario_population =
     \<lparr>pop_size = 200,
      orbit_data = (\<lambda>d. replicate 200 scenario_orbit),
      position_data = (\<lambda>d. replicate 200 \<lparr>vec_x = 0, vec_y = 0, vec_z = 0\<rparr>),
      data_valid = (\<lambda>c d. d = DEVICE_HOST)\<rparr>"



text \<open>
  The scenario's population with other stored positions and other stored mean anomalies:
  the orbits agree with those of \<open>scenario_population\<close> in the other five elements.
\<close>

definition scenario_population_moved :: Population where
  "scenario_population_moved =
     scenario_population
       \<lparr>orbit_data := (\<lambda>d. replicate 200 (scenario_orbit\<lparr>mean_anomaly := 2\<rparr>)),
        position_data := (\<lambda>d. replicate 200 \<lparr>vec_x = 1, vec_y = 2, vec_z = 3\<rparr>)\<rparr>"


subsection \<open>The host\<close>

text \<open>
  Modelled from the spec: the Propagator Adapter (sections 3 and 4.2). The host library
  (\<^verbatim>\<open>opi_host.cpp\<close>, \<^verbatim>\<open>opi_propagator.cpp\<close>, \<^verbatim>\<open>internal/opi_plugin.cpp\<close>) is not among the
  sources. An adapter holds the entry points of one plugin, each taking and returning the
  plugin's private state, and the answers to its capability queries.
\<close>

record 's PropagatorAdapter =
  entry_enable :: "'s \<Rightarrow> ErrorCode \<times> 's"
  entry_disable :: "'s \<Rightarrow> ErrorCode \<times> 's"
  entry_run :: "'s \<Rightarrow> Population \<Rightarrow> real \<Rightarrow> real \<Rightarrow> PropagationMode \<Rightarrow> IndexList option
                  \<Rightarrow> ErrorCode \<times> 's \<times> Population"
  entry_run_indexed :: "'s \<Rightarrow> Population \<Rightarrow> IndexList \<Rightarrow> real \<Rightarrow> real \<Rightarrow> ErrorCode \<times> 's \<times> Population"
  entry_run_multi_time :: "'s \<Rightarrow> Population \<Rightarrow> real list \<Rightarrow> int \<Rightarrow> real \<Rightarrow> ErrorCode \<times> 's \<times> Population"
  supports_backward :: bool
  outputs_cartesian :: bool
  reference_frame :: ReferenceFrame
  needs_cuda :: int
  needs_opencl :: int

text \<open>The adapter of BasicCPP: every field is the member function of the source.\<close>

definition BasicCPP_adapter :: "BasicCPP PropagatorAdapter" where
  "BasicCPP_adapter =
     \<lparr>entry_enable = runEnable,
      entry_disable = runDisable,
      entry_run = runPropagation,
      entry_run_indexed = runIndexedPropagation,
      entry_run_multi_time = runMultiTimePropagation,
      supports_backward = backwardPropagation,
      outputs_cartesian = cartesianCoordinates,
      reference_frame = referenceFrame,
      needs_cuda = requiresCUDA,
      needs_opencl = requiresOpenCL\<rparr>"

text \<open>
  Modelled from the spec: the Plugin Descriptor (section 3) and what the loader sees of
  a shared library (section 4.1, 4.2): whether it opens, whether its mandatory entry
  points resolve, and the descriptor its initialisation entry point fills in. The
  descriptor of BasicCPP takes its fields from the macros and member functions of the
  source.
\<close>

type_synonym version = "int \<times> int \<times> int"

record PluginDescriptor =
  plugin_name :: string
  plugin_author :: string
  plugin_description :: string
  plugin_version :: version
  min_host_version :: int
  req_cuda :: int
  req_opencl :: int

text \<open>Modelled from the spec: what the loader sees of a shared library.\<close>

record PluginLibrary =
  lib_opens :: bool
  lib_has_entry_points :: bool
  lib_descriptor :: PluginDescriptor

definition BasicCPP_descriptor :: PluginDescriptor where
  "BasicCPP_descriptor =
     \<lparr>plugin_name = ''BasicCPP'',
      plugin_author = ''ILR TU BS'',
      plugin_description = ''Basic Mean Motion Converter - C++ version'',
      plugin_version = (0, 1, 0),
      min_host_version = minimumOPIVersionRequired,
      req_cuda = requiresCUDA,
      req_opencl = requiresOpenCL\<rparr>"

definition BasicCPP_library :: PluginLibrary where
  "BasicCPP_library =
     \<lparr>lib_opens = True, lib_has_entry_points = True, lib_descriptor = BasicCPP_descriptor\<rparr>"

text \<open>
  Modelled from the spec: the Host (section 3): the registry of loaded plugins in load
  order, the host's own version major.minor.patch, and which accelerators the runtime
  has. Which times are representable is a parameter of the host, since the model has no
  NaN or infinity to exclude.
\<close>

record Host =
  registry :: "(string \<times> PluginDescriptor) list"
  host_version :: version
  cuda_available :: bool
  opencl_available :: bool
  time_representable :: "real \<Rightarrow> bool"

text \<open>
  Modelled from the spec: the compatibility rule of section 6, "plugin's declared
  minimum-required host version \<open>\<le>\<close> host's actual version". Versions are ordered
  lexicographically; the plugin declares one integer \<open>n\<close> (the source's
  \<^verbatim>\<open>int minimumOPIVersionRequired()\<close>), read as version \<open>n.0.0\<close>.
\<close>

definition version_le :: "version \<Rightarrow> version \<Rightarrow> bool" where
  "version_le v w =
     (case v of (a, b, c) \<Rightarrow> case w of (a', b', c') \<Rightarrow>
        a < a' \<or> (a = a' \<and> (b < b' \<or> (b = b' \<and> c \<le> c'))))"

text \<open>Modelled from the spec: a plugin is compatible with a host when the version it
  requires is at most the host's.\<close>

definition version_compatible :: "PluginDescriptor \<Rightarrow> Host \<Rightarrow> bool" where
  "version_compatible d h = version_le (min_host_version d, 0, 0) (host_version h)"

text \<open>Modelled from the spec: the accelerator requirement flags of a plugin (the source's
  \<^verbatim>\<open>requiresCUDA\<close> and \<^verbatim>\<open>requiresOpenCL\<close>, zero for "not required") are met by what the
  runtime has.\<close>

definition capability_available :: "int \<Rightarrow> int \<Rightarrow> Host \<Rightarrow> bool" where
  "capability_available cuda opencl h =
     ((cuda = 0 \<or> cuda_available h) \<and> (opencl = 0 \<or> opencl_available h))"

text \<open>
  Modelled from the spec: the transition Unloaded \<open>\<rightarrow>\<close> Loaded of section 4.2, with its four
  failures in the order the section lists them. A failed load leaves the host as it was.
\<close>

definition loadPlugin :: "Host \<Rightarrow> PluginLibrary \<Rightarrow> ErrorCode \<times> Host" where
  "loadPlugin h lib =
     (if \<not> lib_opens lib then (PluginLoadFailed, h)
      else if \<not> lib_has_entry_points lib then (MissingEntryPoint, h)
      else if \<not> version_compatible (lib_descriptor lib) h then (VersionIncompatible, h)
      else if \<not> capability_available (req_cuda (lib_descriptor lib)) (req_opencl (lib_descriptor lib)) h
        then (CapabilityUnavailable, h)
      else (SUCCESS,
            h\<lparr>registry := registry h @ [(plugin_name (lib_descriptor lib), lib_descriptor lib)]\<rparr>))"

text \<open>
  Modelled from the spec: the validation before dispatch of section 4.3, in the order of
  the section: the population is non-empty, \<open>dt\<close> and the julian day are representable,
  the accelerators the plugin requires are available, and a backward time step
  (\<open>dt < 0\<close>) needs a plugin that supports backward propagation. The request carries no
  reference frame, so there is nothing to compare the plugin's frame with.
\<close>

definition validate :: "Host \<Rightarrow> 's PropagatorAdapter \<Rightarrow> Population \<Rightarrow> real \<Rightarrow> real \<Rightarrow> ErrorCode" where
  "validate h A P julianDay dt =
     (if getSize P \<le> 0 then EmptyPopulation
      else if \<not> (time_representable h dt \<and> time_representable h julianDay) then InvalidTime
      else if \<not> capability_available (needs_cuda A) (needs_opencl A) h then CapabilityUnavailable
      else if dt < 0 \<and> \<not> supports_backward A then UnsupportedDirection
      else SUCCESS)"

text \<open>
  Modelled from the spec: the fallback loops hand a view of some objects of a population
  to the mandatory entry point (section 4.3). \<open>scatter xs idx vs\<close> stores the values \<open>vs\<close>
  at the indices \<open>idx\<close> of \<open>xs\<close>.
\<close>

fun scatter :: "'a list \<Rightarrow> nat list \<Rightarrow> 'a list \<Rightarrow> 'a list" where
  "scatter xs [] vs = xs"
| "scatter xs (i # idx) [] = xs"
| "scatter xs (i # idx) (v # vs) = scatter (xs[i := v]) idx vs"

text \<open>Modelled from the spec: the view of the objects \<open>idx\<close> of a population, a population
  of \<open>length idx\<close> objects.\<close>

definition object_view :: "Population \<Rightarrow> nat list \<Rightarrow> Population" where
  "object_view P idx =
     P\<lparr>pop_size := length idx,
       orbit_data := (\<lambda>d. map (\<lambda>i. orbit_data P d ! i) idx),
       position_data := (\<lambda>d. map (\<lambda>i. position_data P d ! i) idx)\<rparr>"

text \<open>Modelled from the spec: the arrays and the validity table of a view after the
  plugin's call, stored into the population the view was taken from.\<close>

definition write_back :: "Population \<Rightarrow> nat list \<Rightarrow> Population \<Rightarrow> Population" where
  "write_back P idx V =
     P\<lparr>orbit_data := (\<lambda>d. scatter (orbit_data P d) idx (orbit_data V d)),
       position_data := (\<lambda>d. scatter (position_data P d) idx (position_data V d)),
       data_valid := data_valid V\<rparr>"

text \<open>
  Modelled from the spec: the fallback loop of indexed propagation (section 4.3): for each
  index of the list, in the order of the list, a single-object view and one call of the
  mandatory entry point. A call that fails ends the loop with its error.
\<close>

fun indexed_fallback ::
  "'s PropagatorAdapter \<Rightarrow> 's \<Rightarrow> Population \<Rightarrow> nat list \<Rightarrow> real \<Rightarrow> real \<Rightarrow> ErrorCode \<times> 's \<times> Population" where
  "indexed_fallback A s P [] julianDay dt = (SUCCESS, s, P)"
| "indexed_fallback A s P (i # idx) julianDay dt =
     (let r = entry_run A s (object_view P [i]) julianDay dt Full None;
          P' = write_back P [i] (snd (snd r))
      in if fst r = SUCCESS then indexed_fallback A (fst (snd r)) P' idx julianDay dt
         else (fst r, fst (snd r), P'))"

text \<open>
  Modelled from the spec: the fallback of multi-time propagation (section 4.3): the
  distinct requested days in ascending order, each with the objects that request it, and
  one call of the mandatory entry point per day on the view of those objects.
\<close>

definition day_groups :: "nat \<Rightarrow> real list \<Rightarrow> (real \<times> nat list) list" where
  "day_groups n days =
     map (\<lambda>d. (d, filter (\<lambda>i. days ! i = d) [0..<min n (length days)]))
       (sort (remdups (take n days)))"

text \<open>Modelled from the spec: the loop over the groups of \<open>day_groups\<close>. A call that fails
  ends the loop with its error.\<close>

fun multi_time_fallback ::
  "'s PropagatorAdapter \<Rightarrow> 's \<Rightarrow> Population \<Rightarrow> (real \<times> nat list) list \<Rightarrow> real
     \<Rightarrow> ErrorCode \<times> 's \<times> Population" where
  "multi_time_fallback A s P [] dt = (SUCCESS, s, P)"
| "multi_time_fallback A s P (g # groups) dt =
     (let r = entry_run A s (object_view P (snd g)) (fst g) dt Full None;
          P' = write_back P (snd g) (snd (snd r))
      in if fst r = SUCCESS then multi_time_fallback A (fst (snd r)) P' groups dt
         else (fst r, fst (snd r), P'))"

text \<open>
  Modelled from the spec: \<open>Host.propagate(population, julianDay, dt, mode, indices)\<close> of
  section 4.3, with the per-object days of a multi-time request as a further argument.
  After validation, \<open>Full\<close> calls the mandatory entry point; \<open>Indexed\<close> and \<open>MultiTime\<close>
  call the optional entry point and, when the plugin answers \<open>NOT_IMPLEMENTED\<close>
  (section 7), run the fallback. An index outside \<open>0 \<le> index < N\<close> fails the indexed
  request before anything is modified (section 8).
\<close>

definition propagate ::
  "Host \<Rightarrow> 's PropagatorAdapter \<Rightarrow> 's \<Rightarrow> Population \<Rightarrow> real \<Rightarrow> real \<Rightarrow> PropagationMode
     \<Rightarrow> IndexList \<Rightarrow> real list \<Rightarrow> ErrorCode \<times> 's \<times> Population" where
  "propagate h A s P julianDay dt mode indices days =
     (let v = validate h A P julianDay dt in
      if v \<noteq> SUCCESS then (v, s, P)
      else case mode of
        Full \<Rightarrow> entry_run A s P julianDay dt Full None
      | Indexed \<Rightarrow>
          (if \<not> list_all (\<lambda>i. 0 \<le> i \<and> i < getSize P) indices then (IndexOutOfRange, s, P)
           else let r = entry_run_indexed A s P indices julianDay dt in
             if fst r = NOT_IMPLEMENTED
             then indexed_fallback A (fst (snd r)) (snd (snd r)) (map nat indices) julianDay dt
             else r)
      | MultiTime \<Rightarrow>
          (let r = entry_run_multi_time A s P days (int (length days)) dt in
             if fst r = NOT_IMPLEMENTED
             then multi_time_fallback A (fst (snd r)) (snd (snd r))
                    (day_groups (pop_size (snd (snd r))) days) dt
             else r))"


text \<open>Two hosts for the examples: one of version 1.0.0 and one of version 0.9.0, both
  without accelerators.\<close>

definition example_host :: Host where
  "example_host =
     \<lparr>registry = [], host_version = (1, 0, 0), cuda_available = False, opencl_available = False,
      time_representable = (\<lambda>t. True)\<rparr>"

definition old_host :: Host where
  "old_host = example_host\<lparr>host_version := (0, 9, 0)\<rparr>"


section \<open>Properties\<close>

subsection \<open>The kernel writes every cell below \<open>size\<close>\<close>

declare cpp_propagate_loop.simps [simp del]

lemma propagate_object_mean_anomaly [simp]:
  "propagate_object (ob\<lparr>mean_anomaly := m\<rparr>) seconds = propagate_object ob seconds"
  by (simp add: propagate_object_def)

lemma cpp_propagate_loop_length:
  "length (fst (cpp_propagate_loop i orbit position seconds sz)) = length orbit \<and>
   length (snd (cpp_propagate_loop i orbit position seconds sz)) = length position"
proof (induction i orbit position seconds sz rule: cpp_propagate_loop.induct)
  case (1 i orbit position seconds sz)
  show ?case
  proof (cases "i < sz")
    case True
    with 1 show ?thesis
      by (subst (1 2) cpp_propagate_loop.simps) (simp add: Let_def)
  next
    case False
    then show ?thesis
      by (subst (1 2) cpp_propagate_loop.simps) simp
  qed
qed

lemma cpp_propagate_loop_nth:
  "0 \<le> i \<Longrightarrow> sz \<le> int (length orbit) \<Longrightarrow> sz \<le> int (length position) \<Longrightarrow>
   k < length orbit \<Longrightarrow>
   fst (cpp_propagate_loop i orbit position seconds sz) ! k =
     (if nat i \<le> k \<and> int k < sz
      then (orbit ! k)\<lparr>mean_anomaly := snd (propagate_object (orbit ! k) seconds)\<rparr>
      else orbit ! k)"
proof (induction i orbit position seconds sz rule: cpp_propagate_loop.induct)
  case (1 i orbit position seconds sz)
  show ?case
  proof (cases "i < sz")
    case True
    let ?res = "propagate_object (orbit ! nat i) seconds"
    let ?position' = "position[nat i := fst ?res]"
    let ?orbit' = "orbit[nat i := (orbit ! nat i)\<lparr>mean_anomaly := snd ?res\<rparr>]"
    have IH: "fst (cpp_propagate_loop (i + 1) ?orbit' ?position' seconds sz) ! k =
     (if nat (i + 1) \<le> k \<and> int k < sz
      then (?orbit' ! k)\<lparr>mean_anomaly := snd (propagate_object (?orbit' ! k) seconds)\<rparr>
      else ?orbit' ! k)"
      using 1 True by (intro "1.IH"[OF True refl refl refl]) auto
    have unf: "cpp_propagate_loop i orbit position seconds sz =
       cpp_propagate_loop (i + 1) ?orbit' ?position' seconds sz"
      using True by (subst cpp_propagate_loop.simps) (simp add: Let_def)
    show ?thesis
      unfolding unf IH using "1.prems" True
      by (auto simp: nth_list_update)
  next
    case False
    with "1.prems" show ?thesis
      by (subst cpp_propagate_loop.simps) auto
  qed
qed

lemma cpp_propagate_loop_nth_pos:
  "0 \<le> i \<Longrightarrow> sz \<le> int (length orbit) \<Longrightarrow> sz \<le> int (length position) \<Longrightarrow>
   k < length position \<Longrightarrow>
   snd (cpp_propagate_loop i orbit position seconds sz) ! k =
     (if nat i \<le> k \<and> int k < sz
      then fst (propagate_object (orbit ! k) seconds)
      else position ! k)"
proof (induction i orbit position seconds sz rule: cpp_propagate_loop.induct)
  case (1 i orbit position seconds sz)
  show ?case
  proof (cases "i < sz")
    case True
    let ?res = "propagate_object (orbit ! nat i) seconds"
    let ?position' = "position[nat i := fst ?res]"
    let ?orbit' = "orbit[nat i := (orbit ! nat i)\<lparr>mean_anomaly := snd ?res\<rparr>]"
    have IH: "snd (cpp_propagate_loop (i + 1) ?orbit' ?position' seconds sz) ! k =
     (if nat (i + 1) \<le> k \<and> int k < sz
      then fst (propagate_object (?orbit' ! k) seconds)
      else ?position' ! k)"
      using 1 True by (intro "1.IH"[OF True refl refl refl]) auto
    have unf: "cpp_propagate_loop i orbit position seconds sz =
       cpp_propagate_loop (i + 1) ?orbit' ?position' seconds sz"
      using True by (subst cpp_propagate_loop.simps) (simp add: Let_def)
    show ?thesis
      unfolding unf IH using "1.prems" True
      by (auto simp: nth_list_update)
  next
    case False
    with "1.prems" show ?thesis
      by (subst cpp_propagate_loop.simps) auto
  qed
qed

lemma cpp_propagate_wf:
  assumes "length position = length orbit"
  shows "cpp_propagate orbit position seconds (int (length orbit)) =
    (map (\<lambda>ob. ob\<lparr>mean_anomaly := snd (propagate_object ob seconds)\<rparr>) orbit,
     map (\<lambda>ob. fst (propagate_object ob seconds)) orbit)"
proof -
  let ?r = "cpp_propagate_loop 0 orbit position seconds (int (length orbit))"
  have "fst ?r = map (\<lambda>ob. ob\<lparr>mean_anomaly := snd (propagate_object ob seconds)\<rparr>) orbit"
    using assms by (intro nth_equalityI) (simp_all add: cpp_propagate_loop_length cpp_propagate_loop_nth)
  moreover have "snd ?r = map (\<lambda>ob. fst (propagate_object ob seconds)) orbit"
    using assms by (intro nth_equalityI) (simp_all add: cpp_propagate_loop_length cpp_propagate_loop_nth_pos)
  ultimately show ?thesis
    by (simp add: cpp_propagate_def prod_eq_iff)
qed

subsection \<open>The population buffer keeps its shape\<close>

lemma wf_getOrbit: "wf_population P \<Longrightarrow> wf_population (getOrbit P dev)"
  by (cases dev)
     (auto simp: wf_population_def getOrbit_def mark_valid_def authoritative_def
           split: option.splits if_splits)

lemma wf_getPosition: "wf_population P \<Longrightarrow> wf_population (getPosition P dev)"
  by (cases dev)
     (auto simp: wf_population_def getPosition_def mark_valid_def authoritative_def
           split: option.splits if_splits)

lemma pop_size_getOrbit [simp]: "pop_size (getOrbit P dev) = pop_size P"
  by (simp add: getOrbit_def mark_valid_def split: option.splits)

lemma pop_size_getPosition [simp]: "pop_size (getPosition P dev) = pop_size P"
  by (simp add: getPosition_def mark_valid_def split: option.splits)

lemma orbit_data_getPosition [simp]: "orbit_data (getPosition P dev) = orbit_data P"
  by (simp add: getPosition_def mark_valid_def split: option.splits)

lemma host_lengths:
  assumes "wf_population P"
  shows "length (host_orbit P) = pop_size P" "length (host_position P) = pop_size P"
  using wf_getOrbit[OF assms, of DEVICE_HOST]
    wf_getPosition[OF wf_getOrbit[OF assms], of DEVICE_HOST DEVICE_HOST]
  by (simp_all add: host_orbit_def host_position_def wf_population_def)

lemma wf_scenario_population: "wf_population scenario_population"
  by (simp add: wf_population_def scenario_population_def)

subsection \<open>What one call of \<open>runPropagation\<close> returns\<close>

lemma runPropagation_result:
  "runPropagation this P jd dt mode list =
    (SUCCESS,
     (if baseDay this = 0 then this\<lparr>baseDay := jd\<rparr> else this),
     update (update
       ((getPosition (getOrbit P DEVICE_HOST) DEVICE_HOST)
          \<lparr>orbit_data := (orbit_data (getOrbit P DEVICE_HOST))
             (DEVICE_HOST := fst (cpp_propagate (host_orbit P) (host_position P)
                                    (seconds_of this jd dt) (getSize P))),
           position_data := (position_data (getPosition (getOrbit P DEVICE_HOST) DEVICE_HOST))
             (DEVICE_HOST := snd (cpp_propagate (host_orbit P) (host_position P)
                                    (seconds_of this jd dt) (getSize P)))\<rparr>)
       DATA_POSITION DEVICE_HOST) DATA_ORBIT DEVICE_HOST)"
  by (simp add: runPropagation_def Let_def seconds_of_def host_orbit_def host_position_def getSize_def)

lemma runPropagation_success: "fst (runPropagation this P jd dt mode list) = SUCCESS"
  by (simp add: runPropagation_result)

lemma cpp_propagate_host:
  assumes "wf_population P"
  shows "cpp_propagate (host_orbit P) (host_position P) seconds (getSize P) =
    (map (\<lambda>ob. ob\<lparr>mean_anomaly := snd (propagate_object ob seconds)\<rparr>) (host_orbit P),
     map (\<lambda>ob. fst (propagate_object ob seconds)) (host_orbit P))"
  using cpp_propagate_wf[of "host_position P" "host_orbit P" seconds] host_lengths[OF assms]
  by (simp add: getSize_def)

lemma runPropagation_wf:
  assumes "wf_population P"
  shows "population_after (runPropagation this P jd dt mode list) =
    (getPosition (getOrbit P DEVICE_HOST) DEVICE_HOST)
      \<lparr>orbit_data := (orbit_data (getOrbit P DEVICE_HOST))
         (DEVICE_HOST := map (\<lambda>ob. ob\<lparr>mean_anomaly := snd (propagate_object ob (seconds_of this jd dt))\<rparr>)
                           (host_orbit P)),
       position_data := (position_data (getPosition (getOrbit P DEVICE_HOST) DEVICE_HOST))
         (DEVICE_HOST := map (\<lambda>ob. fst (propagate_object ob (seconds_of this jd dt))) (host_orbit P)),
       data_valid := (data_valid (getPosition (getOrbit P DEVICE_HOST) DEVICE_HOST))
         (DATA_POSITION := (\<lambda>d. d = DEVICE_HOST), DATA_ORBIT := (\<lambda>d. d = DEVICE_HOST))\<rparr>"
  by (simp add: runPropagation_result population_after_def cpp_propagate_host[OF assms] update_def)

lemma wf_runPropagation:
  assumes "wf_population P"
  shows "wf_population (population_after (runPropagation this P jd dt mode list))"
  using wf_getPosition[OF wf_getOrbit[OF assms], of DEVICE_HOST DEVICE_HOST] host_lengths[OF assms]
  by (simp add: runPropagation_wf[OF assms] wf_population_def)

text \<open>
  A second call with the same elapsed seconds on the population that a first call has
  left behind changes nothing: the kernel reads only the five elements it does not
  write.
\<close>

lemma runPropagation_again:
  assumes wf: "wf_population P"
    and sec: "seconds_of this' jd' dt' = seconds_of this jd dt"
  shows "population_after (runPropagation this' (population_after (runPropagation this P jd dt mode list))
             jd' dt' mode' list') =
         population_after (runPropagation this P jd dt mode list)"
proof -
  let ?P1 = "population_after (runPropagation this P jd dt mode list)"
  let ?s = "seconds_of this jd dt"
  have wf1: "wf_population ?P1" by (rule wf_runPropagation[OF wf])
  have valid: "data_valid ?P1 DATA_ORBIT DEVICE_HOST" "data_valid ?P1 DATA_POSITION DEVICE_HOST"
    by (simp_all add: runPropagation_wf[OF wf])
  have get: "getOrbit ?P1 DEVICE_HOST = ?P1" "getPosition ?P1 DEVICE_HOST = ?P1"
    using valid by (simp_all add: getOrbit_def getPosition_def)
  have ho: "host_orbit ?P1 =
      map (\<lambda>ob. ob\<lparr>mean_anomaly := snd (propagate_object ob ?s)\<rparr>) (host_orbit P)"
    unfolding host_orbit_def get by (simp add: runPropagation_wf[OF wf] host_orbit_def)
  have o1: "map (\<lambda>ob. ob\<lparr>mean_anomaly := snd (propagate_object ob ?s)\<rparr>) (host_orbit ?P1) =
      orbit_data ?P1 DEVICE_HOST"
    unfolding ho by (simp add: runPropagation_wf[OF wf] o_def)
  have p1: "map (\<lambda>ob. fst (propagate_object ob ?s)) (host_orbit ?P1) = position_data ?P1 DEVICE_HOST"
    unfolding ho by (simp add: runPropagation_wf[OF wf] o_def)
  have dv: "(data_valid ?P1)(DATA_POSITION := (\<lambda>d. d = DEVICE_HOST), DATA_ORBIT := (\<lambda>d. d = DEVICE_HOST)) =
      data_valid ?P1"
    by (simp add: runPropagation_wf[OF wf])
  show ?thesis
    by (subst runPropagation_wf[OF wf1]) (simp add: get sec o1 p1 dv)
qed

lemma baseDay_run_calls:
  "baseDay (fst (run_calls this P cs)) =
     (if baseDay this \<noteq> 0 then baseDay this
      else case find (\<lambda>c. fst c \<noteq> 0) cs of None \<Rightarrow> 0 | Some c \<Rightarrow> fst c)"
proof (induction cs arbitrary: this P)
  case Nil
  show ?case by simp
next
  case (Cons c cs)
  have step: "baseDay (plugin_after (runPropagation this P (fst c) (snd c) Full None)) =
      (if baseDay this = 0 then fst c else baseDay this)"
    by (simp add: runPropagation_def plugin_after_def Let_def)
  show ?case
    by (simp add: Let_def Cons.IH step)
qed

lemma propagate_object_differ:
  assumes "differ_only_in_mean_anomaly orbit1 orbit2" "k < length orbit1"
  shows "propagate_object (orbit2 ! k) seconds = propagate_object (orbit1 ! k) seconds"
proof -
  from assms have "orbit2 ! k = (orbit1 ! k)\<lparr>mean_anomaly := mean_anomaly (orbit2 ! k)\<rparr>"
    by (simp add: differ_only_in_mean_anomaly_def list_all2_conv_all_nth)
  then have "propagate_object (orbit2 ! k) seconds =
      propagate_object ((orbit1 ! k)\<lparr>mean_anomaly := mean_anomaly (orbit2 ! k)\<rparr>) seconds"
    by simp
  then show ?thesis by simp
qed

subsection \<open>The host dispatching to BasicCPP\<close>

lemma indexed_fallback_BasicCPP:
  "fst (indexed_fallback BasicCPP_adapter s P idx jd dt) = SUCCESS"
  by (induction idx arbitrary: s P)
     (simp_all add: Let_def BasicCPP_adapter_def runPropagation_success)

lemma multi_time_fallback_BasicCPP:
  "fst (multi_time_fallback BasicCPP_adapter s P groups dt) = SUCCESS"
  by (induction groups arbitrary: s P)
     (simp_all add: Let_def BasicCPP_adapter_def runPropagation_success)

lemma propagate_BasicCPP_invalid:
  "validate h BasicCPP_adapter P jd dt \<noteq> SUCCESS \<Longrightarrow>
   propagate h BasicCPP_adapter this P jd dt mode indices days =
     (validate h BasicCPP_adapter P jd dt, this, P)"
  by (simp add: propagate_def Let_def)

lemma propagate_BasicCPP_indexed:
  "validate h BasicCPP_adapter P jd dt = SUCCESS \<Longrightarrow>
   propagate h BasicCPP_adapter this P jd dt Indexed indices days =
     (if list_all (\<lambda>i. 0 \<le> i \<and> i < getSize P) indices
      then indexed_fallback BasicCPP_adapter this P (map nat indices) jd dt
      else (IndexOutOfRange, this, P))"
  by (simp add: propagate_def Let_def BasicCPP_adapter_def runIndexedPropagation_def)

lemma propagate_BasicCPP_multi_time:
  "validate h BasicCPP_adapter P jd dt = SUCCESS \<Longrightarrow>
   propagate h BasicCPP_adapter this P jd dt MultiTime indices days =
     multi_time_fallback BasicCPP_adapter this P (day_groups (pop_size P) days) dt"
  by (simp add: propagate_def Let_def BasicCPP_adapter_def runMultiTimePropagation_def)

lemma propagate_BasicCPP_full:
  "validate h BasicCPP_adapter P jd dt = SUCCESS \<Longrightarrow>
   propagate h BasicCPP_adapter this P jd dt Full indices days =
     runPropagation this P jd dt Full None"
  by (simp add: propagate_def Let_def BasicCPP_adapter_def)

lemma validate_not_NOT_IMPLEMENTED: "validate h A P jd dt \<noteq> NOT_IMPLEMENTED"
  by (simp add: validate_def)

subsection \<open>Rounding to binary32\<close>

lemma f32_zero: "f32 0 = 0"
  by (simp add: f32_def)

lemma f32_eq:
  assumes "v \<noteq> 0" "\<lfloor>log 2 \<bar>v\<bar>\<rfloor> = e" "- 126 \<le> e" "2 powr (of_int e - 23) = ulp"
  shows "f32 v = ulp * of_int (round_to_even (v / ulp))"
  using assms by (simp add: f32_def Let_def max_def)



text \<open>
  Two values of \<open>seconds\<close>: half a day and a tenth of a second after the baseline, and ten
  thousand days and a minute after it.
\<close>

lemma f32_half_day: "f32 43200.1 = 43200.1015625"
proof -
  have "(2 :: real) powr 15 \<le> 43200.1" "(43200.1 :: real) < 2 powr 16"
    by (simp_all add: powr_numeral)
  then have e: "\<lfloor>log 2 \<bar>43200.1 :: real\<bar>\<rfloor> = 15"
    by (simp add: floor_eq_iff le_log_iff log_less_iff)
  have ulp: "(2 :: real) powr (of_int 15 - 23) = 1 / 256"
    by (simp add: powr_minus powr_numeral)
  have fl: "\<lfloor>(43200.1 :: real) / (1 / 256)\<rfloor> = 11059225"
    by (simp add: floor_eq_iff)
  have r: "round_to_even ((43200.1 :: real) / (1 / 256)) = 11059226"
    unfolding round_to_even_def Let_def fl by simp
  have "f32 43200.1 = 1 / 256 * of_int (round_to_even (43200.1 / (1 / 256)))"
    by (rule f32_eq[OF _ e _ ulp]) simp_all
  then show ?thesis
    unfolding r by simp
qed

lemma f32_ten_thousand_days: "f32 864000060 = 864000064"
proof -
  have "(2 :: real) powr 29 \<le> 864000060" "(864000060 :: real) < 2 powr 30"
    by (simp_all add: powr_numeral)
  then have e: "\<lfloor>log 2 \<bar>864000060 :: real\<bar>\<rfloor> = 29"
    by (simp add: floor_eq_iff le_log_iff log_less_iff)
  have ulp: "(2 :: real) powr (of_int 29 - 23) = 64"
    by (simp add: powr_numeral)
  have fl: "\<lfloor>(864000060 :: real) / 64\<rfloor> = 13500000"
    by (simp add: floor_eq_iff)
  have r: "round_to_even ((864000060 :: real) / 64) = 13500001"
    unfolding round_to_even_def Let_def fl by simp
  have "f32 864000060 = 64 * of_int (round_to_even (864000060 / 64))"
    by (rule f32_eq[OF _ e _ ulp]) simp_all
  then show ?thesis
    unfolding r by simp
qed

lemma seconds_of_examples:
  "seconds_of \<lparr>baseDay = 2451545\<rparr> 2451545.5 0.1 = 43200.1015625"
  "seconds_of \<lparr>baseDay = 2451545\<rparr> 2461545 60 = 864000064"
  using f32_half_day f32_ten_thousand_days by (simp_all add: seconds_of_def)

subsection \<open>The position the kernel computes\<close>





lemma wf_scenario_population_moved: "wf_population scenario_population_moved"
  by (simp add: wf_population_def scenario_population_moved_def scenario_population_def)

section \<open>The claims\<close>

text \<open>
  C1. Disabling and then enabling BasicCPP resets its private state: a call of
  \<open>runPropagation\<close> with \<open>dt = 0\<close> after \<open>runDisable\<close> and \<open>runEnable\<close>, from whatever
  state the plugin was in, returns what the very first call after the initial enable
  returns for the same arguments, and both run the kernel with zero elapsed seconds
  (the elapsed time \<open>(jd - jd) * 86400 + 0\<close> is 0 and so is its rounding to \<^verbatim>\<open>float\<close>). The
  same holds
  when the second call is given the population that the first call has left behind: its
  output is again that population.
\<close>

theorem disable_enable_resets:
  "runPropagation (snd (runEnable (snd (runDisable this)))) P jd 0 mode list =
     runPropagation (snd (runEnable BasicCPP_new)) P jd 0 mode list \<and>
   seconds_of (snd (runEnable (snd (runDisable this)))) jd 0 = 0 \<and>
   seconds_of (snd (runEnable BasicCPP_new)) jd 0 = 0 \<and>
   (wf_population P \<longrightarrow>
      population_after (runPropagation (snd (runEnable (snd (runDisable this))))
         (population_after (runPropagation (snd (runEnable BasicCPP_new)) P jd 0 mode list))
         jd 0 mode list) =
      population_after (runPropagation (snd (runEnable BasicCPP_new)) P jd 0 mode list))"
proof -
  have st: "snd (runEnable (snd (runDisable this))) = snd (runEnable BasicCPP_new)"
    by (simp add: runEnable_def runDisable_def BasicCPP_new_def)
  have sec: "seconds_of (snd (runEnable BasicCPP_new)) jd 0 = 0"
    by (simp add: seconds_of_def runEnable_def BasicCPP_new_def f32_zero)
  show ?thesis
    unfolding st using sec runPropagation_again[OF _ refl] by simp
qed

theorem disable_enable_resets_witness:
  "wf_population scenario_population \<and>
   population_after (runPropagation (snd (runEnable (snd (runDisable \<lparr>baseDay = 2451545\<rparr>))))
      (population_after (runPropagation (snd (runEnable BasicCPP_new)) scenario_population 2451546 0 Full None))
      2451546 0 Full None) =
   population_after (runPropagation (snd (runEnable BasicCPP_new)) scenario_population 2451546 0 Full None)"
proof -
  have wf: "wf_population scenario_population"
    by (simp add: wf_population_def scenario_population_def)
  show ?thesis
    using wf disable_enable_resets[of "\<lparr>baseDay = 2451545\<rparr>" scenario_population 2451546 Full None]
    by blast
qed

text \<open>
  C2. The optional entry points of BasicCPP return \<open>NOT_IMPLEMENTED\<close> and leave plugin
  and population as they were; dispatched through the host, no request to BasicCPP, in
  any mode, returns \<open>NOT_IMPLEMENTED\<close>: a valid indexed or multi-time request is answered
  by the fallback loop over the mandatory \<open>runPropagation\<close>, which succeeds.
\<close>

theorem not_implemented_is_absorbed:
  "runIndexedPropagation this P indices jd dt = (NOT_IMPLEMENTED, this, P) \<and>
   runMultiTimePropagation this P days len dt = (NOT_IMPLEMENTED, this, P) \<and>
   fst (propagate h BasicCPP_adapter this P jd dt mode indices days) \<noteq> NOT_IMPLEMENTED \<and>
   (validate h BasicCPP_adapter P jd dt = SUCCESS \<and>
    list_all (\<lambda>i. 0 \<le> i \<and> i < getSize P) indices \<longrightarrow>
      propagate h BasicCPP_adapter this P jd dt Indexed indices days =
        indexed_fallback BasicCPP_adapter this P (map nat indices) jd dt \<and>
      fst (propagate h BasicCPP_adapter this P jd dt Indexed indices days) = SUCCESS) \<and>
   (validate h BasicCPP_adapter P jd dt = SUCCESS \<longrightarrow>
      propagate h BasicCPP_adapter this P jd dt MultiTime indices days =
        multi_time_fallback BasicCPP_adapter this P (day_groups (pop_size P) days) dt \<and>
      fst (propagate h BasicCPP_adapter this P jd dt MultiTime indices days) = SUCCESS)"
proof -
  have absorbed: "fst (propagate h BasicCPP_adapter this P jd dt mode indices days) \<noteq> NOT_IMPLEMENTED"
  proof (cases "validate h BasicCPP_adapter P jd dt = SUCCESS")
    case False
    then show ?thesis
      by (simp add: propagate_BasicCPP_invalid validate_not_NOT_IMPLEMENTED)
  next
    case True
    then show ?thesis
      by (cases mode)
         (simp_all add: propagate_BasicCPP_full propagate_BasicCPP_indexed
            propagate_BasicCPP_multi_time runPropagation_success indexed_fallback_BasicCPP
            multi_time_fallback_BasicCPP)
  qed
  show ?thesis
    using absorbed
    by (simp add: runIndexedPropagation_def runMultiTimePropagation_def
          propagate_BasicCPP_indexed propagate_BasicCPP_multi_time
          indexed_fallback_BasicCPP multi_time_fallback_BasicCPP)
qed

theorem not_implemented_is_absorbed_witness:
  "validate example_host BasicCPP_adapter scenario_population 2451545 60 = SUCCESS \<and>
   list_all (\<lambda>i. 0 \<le> i \<and> i < getSize scenario_population) [0, 7, 199] \<and>
   propagate example_host BasicCPP_adapter BasicCPP_new scenario_population 2451545 60 Indexed
       [0, 7, 199] [] =
     indexed_fallback BasicCPP_adapter BasicCPP_new scenario_population (map nat [0, 7, 199])
       2451545 60 \<and>
   fst (propagate example_host BasicCPP_adapter BasicCPP_new scenario_population 2451545 60 Indexed
          [0, 7, 199] []) = SUCCESS \<and>
   fst (propagate example_host BasicCPP_adapter BasicCPP_new scenario_population 2451545 60 MultiTime
          [] (replicate 200 2451545)) = SUCCESS"
proof -
  have a: "validate example_host BasicCPP_adapter scenario_population 2451545 60 = SUCCESS"
    by (simp add: validate_def getSize_def scenario_population_def example_host_def
          BasicCPP_adapter_def capability_available_def requiresCUDA_def requiresOpenCL_def)
  have b: "list_all (\<lambda>i. 0 \<le> i \<and> i < getSize scenario_population) [0, 7, 199]"
    by (simp add: getSize_def scenario_population_def)
  show ?thesis
    using a b
      not_implemented_is_absorbed[of BasicCPP_new scenario_population "[0, 7, 199]" 2451545 60
         "[]" 0 example_host Indexed]
      not_implemented_is_absorbed[of BasicCPP_new scenario_population "[]" 2451545 60
         "replicate 200 2451545" 0 example_host MultiTime]
    by blast
qed

text \<open>
  C3. Every call of \<open>runPropagation\<close> returns \<open>SUCCESS\<close>, and in the population it returns
  the host backend is marked valid for the position category and for the orbit category,
  is the authoritative backend of both, and the other backend's copies of both are
  invalid.
\<close>

theorem host_authoritative_after_propagation:
  "fst (runPropagation this P jd dt mode list) = SUCCESS \<and>
   data_valid (population_after (runPropagation this P jd dt mode list)) DATA_POSITION DEVICE_HOST \<and>
   data_valid (population_after (runPropagation this P jd dt mode list)) DATA_ORBIT DEVICE_HOST \<and>
   authoritative (population_after (runPropagation this P jd dt mode list)) DATA_POSITION =
     Some DEVICE_HOST \<and>
   authoritative (population_after (runPropagation this P jd dt mode list)) DATA_ORBIT =
     Some DEVICE_HOST \<and>
   \<not> data_valid (population_after (runPropagation this P jd dt mode list)) DATA_POSITION DEVICE_CUDA \<and>
   \<not> data_valid (population_after (runPropagation this P jd dt mode list)) DATA_ORBIT DEVICE_CUDA"
  by (simp add: runPropagation_result population_after_def update_def authoritative_def)







text \<open>
  C6. Version gating at load time. A load succeeds only if the plugin's minimum required
  host version is at most the host's version; a library that opens and resolves, but
  whose descriptor requires more than the host's version, fails with
  \<open>VersionIncompatible\<close> and the host, with its registry, is as before; every failed
  load leaves the host unchanged. BasicCPP declares the minimum version 1, so it is
  compatible with exactly the hosts of version 1.0.0 or later.
\<close>

theorem version_gating:
  "(fst (loadPlugin h lib) = SUCCESS \<longrightarrow> version_compatible (lib_descriptor lib) h) \<and>
   (lib_opens lib \<and> lib_has_entry_points lib \<and> \<not> version_compatible (lib_descriptor lib) h \<longrightarrow>
      loadPlugin h lib = (VersionIncompatible, h) \<and>
      length (registry (snd (loadPlugin h lib))) = length (registry h)) \<and>
   (fst (loadPlugin h lib) \<noteq> SUCCESS \<longrightarrow> snd (loadPlugin h lib) = h) \<and>
   minimumOPIVersionRequired = 1 \<and>
   min_host_version BasicCPP_descriptor = 1 \<and>
   version_compatible BasicCPP_descriptor h = version_le (1, 0, 0) (host_version h)"
  by (simp add: loadPlugin_def version_compatible_def BasicCPP_descriptor_def
        minimumOPIVersionRequired_def)

theorem version_gating_witness:
  "lib_opens BasicCPP_library \<and> lib_has_entry_points BasicCPP_library \<and>
   \<not> version_compatible (lib_descriptor BasicCPP_library) old_host \<and>
   loadPlugin old_host BasicCPP_library = (VersionIncompatible, old_host) \<and>
   length (registry (snd (loadPlugin old_host BasicCPP_library))) = length (registry old_host) \<and>
   fst (loadPlugin example_host BasicCPP_library) = SUCCESS \<and>
   version_compatible (lib_descriptor BasicCPP_library) example_host"
proof -
  have a: "lib_opens BasicCPP_library \<and> lib_has_entry_points BasicCPP_library \<and>
           \<not> version_compatible (lib_descriptor BasicCPP_library) old_host"
    by (simp add: BasicCPP_library_def BasicCPP_descriptor_def version_compatible_def
          version_le_def old_host_def example_host_def minimumOPIVersionRequired_def)
  have b: "fst (loadPlugin example_host BasicCPP_library) = SUCCESS"
    by (simp add: loadPlugin_def BasicCPP_library_def BasicCPP_descriptor_def
          version_compatible_def version_le_def example_host_def minimumOPIVersionRequired_def
          capability_available_def requiresCUDA_def requiresOpenCL_def)
  show ?thesis
    using a b version_gating[of old_host BasicCPP_library]
      version_gating[of example_host BasicCPP_library]
    by simp
qed

text \<open>
  C7. The enable hook of BasicCPP is idempotent: a call returns \<open>SUCCESS\<close> and the plugin
  unchanged, and so do \<open>n\<close> calls in a row, for every \<open>n\<close>; in particular \<open>baseDay\<close> keeps
  its value.
\<close>

theorem enable_idempotent:
  "runEnable this = (SUCCESS, this) \<and>
   runEnable_times n this = (replicate n SUCCESS, this) \<and>
   baseDay (snd (runEnable_times n this)) = baseDay this"
proof -
  have one: "runEnable this = (SUCCESS, this)"
    by (simp add: runEnable_def)
  have many: "runEnable_times n this = (replicate n SUCCESS, this)"
    by (induction n) (simp_all add: runEnable_def)
  from one many show ?thesis by simp
qed

text \<open>
  C8. \<open>baseDay = 0\<close> is the sentinel for "no baseline yet". A first call, after
  construction or after \<open>runDisable\<close>, with julian day 0 leaves \<open>baseDay\<close> at 0. After any
  sequence of calls from such a state, \<open>baseDay\<close> is the julian day of the first call
  whose julian day is not 0 (and 0 if there is none): so a first call with day 0 followed
  by a call with a day \<open>jd \<noteq> 0\<close> takes \<open>jd\<close> as baseline, and the first call fixes the
  baseline when its day is not 0.
\<close>

theorem baseDay_zero_sentinel:
  "baseDay (plugin_after (runPropagation BasicCPP_new P 0 dt mode list)) = 0 \<and>
   baseDay (plugin_after (runPropagation (snd (runDisable this)) P 0 dt mode list)) = 0 \<and>
   baseDay (fst (run_calls BasicCPP_new P cs)) =
     (case find (\<lambda>c. fst c \<noteq> 0) cs of None \<Rightarrow> 0 | Some c \<Rightarrow> fst c) \<and>
   baseDay (fst (run_calls (snd (runDisable this)) P cs)) =
     (case find (\<lambda>c. fst c \<noteq> 0) cs of None \<Rightarrow> 0 | Some c \<Rightarrow> fst c) \<and>
   (jd \<noteq> 0 \<longrightarrow> baseDay (fst (run_calls BasicCPP_new P ((0, dt) # (jd, dt') # cs))) = jd) \<and>
   (jd \<noteq> 0 \<longrightarrow> baseDay (fst (run_calls BasicCPP_new P ((jd, dt) # cs))) = jd)"
proof -
  have first: "baseDay (plugin_after (runPropagation BasicCPP_new P 0 dt mode list)) = 0"
    "baseDay (plugin_after (runPropagation (snd (runDisable this)) P 0 dt mode list)) = 0"
    by (simp_all add: runPropagation_def plugin_after_def Let_def BasicCPP_new_def runDisable_def)
  have new: "baseDay BasicCPP_new = 0" "baseDay (snd (runDisable this)) = 0"
    by (simp_all add: BasicCPP_new_def runDisable_def)
  have calls: "baseDay (fst (run_calls BasicCPP_new P ((0, dt) # (jd, dt') # cs))) = jd"
    "baseDay (fst (run_calls BasicCPP_new P ((jd, dt) # cs))) = jd" if "jd \<noteq> 0"
    using that by (simp_all add: baseDay_run_calls new del: run_calls.simps)
  show ?thesis
    using first calls by (simp add: baseDay_run_calls new del: run_calls.simps)
qed

theorem baseDay_zero_sentinel_witness:
  "(2451545 :: real) \<noteq> 0 \<and>
   baseDay (fst (run_calls BasicCPP_new scenario_population [(0, 60), (2451545, 60), (2451546, 60)])) =
     2451545 \<and>
   baseDay (fst (run_calls BasicCPP_new scenario_population [(2451545, 60), (2451546, 60)])) = 2451545"
proof -
  have a: "(2451545 :: real) \<noteq> 0" by simp
  show ?thesis
    using a
      baseDay_zero_sentinel[of scenario_population 60 Full None BasicCPP_new "[(2451546, 60)]"
        2451545 60]
    by blast
qed

text \<open>
  C9. The output of \<open>cpp_propagate\<close> does not depend on the mean anomalies it is given.
  For two orbit arrays that differ only in their mean anomalies, with \<open>size\<close> within the
  arrays, the position arrays computed are identical and so are the mean anomalies
  written back at every index below \<open>size\<close>; when \<open>size\<close> is the length of the arrays the
  two results are equal altogether.
\<close>

theorem independent_of_mean_anomaly:
  assumes diff: "differ_only_in_mean_anomaly orbit1 orbit2"
    and sz: "sz \<le> int (length orbit1)" "sz \<le> int (length position)"
  shows "snd (cpp_propagate orbit1 position seconds sz) = snd (cpp_propagate orbit2 position seconds sz) \<and>
         (\<forall>k. int k < sz \<longrightarrow>
            mean_anomaly (fst (cpp_propagate orbit1 position seconds sz) ! k) =
            mean_anomaly (fst (cpp_propagate orbit2 position seconds sz) ! k)) \<and>
         (sz = int (length orbit1) \<longrightarrow>
            cpp_propagate orbit1 position seconds sz = cpp_propagate orbit2 position seconds sz)"
proof -
  from diff have len: "length orbit2 = length orbit1"
    by (simp add: differ_only_in_mean_anomaly_def list_all2_lengthD)
  have five: "(orbit2 ! k)\<lparr>mean_anomaly := m\<rparr> = (orbit1 ! k)\<lparr>mean_anomaly := m\<rparr>"
    if "k < length orbit1" for k m
  proof -
    from diff that have "orbit2 ! k = (orbit1 ! k)\<lparr>mean_anomaly := mean_anomaly (orbit2 ! k)\<rparr>"
      by (simp add: differ_only_in_mean_anomaly_def list_all2_conv_all_nth)
    then have "(orbit2 ! k)\<lparr>mean_anomaly := m\<rparr> =
        (orbit1 ! k)\<lparr>mean_anomaly := mean_anomaly (orbit2 ! k), mean_anomaly := m\<rparr>"
      by simp
    then show ?thesis by simp
  qed
  have pos: "snd (cpp_propagate orbit1 position seconds sz) = snd (cpp_propagate orbit2 position seconds sz)"
    unfolding cpp_propagate_def
    using sz len
    by (intro nth_equalityI)
       (simp_all add: cpp_propagate_loop_length cpp_propagate_loop_nth_pos
          propagate_object_differ[OF diff])
  have ma: "mean_anomaly (fst (cpp_propagate orbit1 position seconds sz) ! k) =
            mean_anomaly (fst (cpp_propagate orbit2 position seconds sz) ! k)" if "int k < sz" for k
    unfolding cpp_propagate_def
    using sz len that
    by (simp add: cpp_propagate_loop_nth propagate_object_differ[OF diff])
  have whole: "fst (cpp_propagate orbit1 position seconds sz) = fst (cpp_propagate orbit2 position seconds sz)"
    if "sz = int (length orbit1)"
    unfolding cpp_propagate_def
    using sz len that
    by (intro nth_equalityI)
       (simp_all add: cpp_propagate_loop_length cpp_propagate_loop_nth
          propagate_object_differ[OF diff] five)
  from pos ma whole show ?thesis
    by (auto simp: prod_eq_iff)
qed

theorem independent_of_mean_anomaly_witness:
  "differ_only_in_mean_anomaly [scenario_orbit] [scenario_orbit\<lparr>mean_anomaly := 2\<rparr>] \<and>
   cpp_propagate [scenario_orbit] [\<lparr>vec_x = 0, vec_y = 0, vec_z = 0\<rparr>] 60 1 =
   cpp_propagate [scenario_orbit\<lparr>mean_anomaly := 2\<rparr>] [\<lparr>vec_x = 0, vec_y = 0, vec_z = 0\<rparr>] 60 1"
proof -
  have d: "differ_only_in_mean_anomaly [scenario_orbit] [scenario_orbit\<lparr>mean_anomaly := 2\<rparr>]"
    by (simp add: differ_only_in_mean_anomaly_def)
  have l: "(1 :: int) \<le> int (length [scenario_orbit])"
    "(1 :: int) \<le> int (length [\<lparr>vec_x = 0 :: real, vec_y = 0 :: real, vec_z = 0 :: real\<rparr>])"
    by simp_all
  show ?thesis
    using d independent_of_mean_anomaly[OF d l, of 60]
    by simp
qed

text \<open>
  C10. The division that computes the orbital radius is guarded: the radius is \<open>p\<close>
  divided by \<open>arg\<close> when \<open>arg > EPSILON\<close> and by \<open>EPSILON = 0.00001\<close> otherwise, so the
  divisor is strictly positive and never zero (an order fact of the reals; it holds of
  the floats as well, where a comparison with NaN is false and selects \<open>EPSILON\<close>).
\<close>

theorem radius_division_guarded:
  "orbit_radius p arg = p / radius_divisor arg \<and>
   radius_divisor arg = (if arg > EPSILON then arg else EPSILON) \<and>
   EPSILON = 0.00001 \<and>
   0 < radius_divisor arg \<and>
   radius_divisor arg \<noteq> 0"
  by (simp add: orbit_radius_def radius_divisor_def EPSILON_def)

end
